theory Spec2Isabelle
  imports Main
begin

section \<open>The CIO block device driver (driver/cio.py)\<close>

text \<open>
  The module defines three label constants, two module-level helpers and the class
  \<open>CIOBlockDeviceAPI\<close> with its methods. The interpreter compiles a module as a whole
  before it runs any statement of it, and this module does not compile: line 186
  holds bytes outside ASCII in a file that declares no encoding, and line 195 holds
  the element \<^verbatim>\<open>2b"--bytes"\<close>, a number followed by a string with no comma between
  them. So no function of the module is ever defined, and every attempt to use the
  adapter ends in the compile error.

  The development has three layers:
  \<^item> the compilation of the module, computed from the bytes of line 186 and the
    tokens of lines 195-196;
  \<^item> tables read off the source text: the names the class body binds, the
    statements of each method body, the raise statements, the names a body reads;
  \<^item> the function bodies, as they would run in a loaded module. An operation is run
    through \<open>run_operation\<close>, which reaches a body only when the module compiles.

  Names are those of the source. Where the source name starts with an underscore the
  underscore is dropped (\<open>_get_cio_volume\<close> is \<open>get_cio_volume\<close>, \<open>__init__\<close> is
  \<open>init\<close>); the attributes \<open>id\<close> and \<open>size\<close> of a volume are \<open>vol_id\<close> and
  \<open>vol_size\<close>, the field \<open>size\<close> of a \<open>BlockDeviceVolume\<close> is \<open>size_bytes\<close>, and a
  parameter that shares its name with a field carries a prime.
\<close>

subsection \<open>Errors\<close>

text \<open>
  Every exception the module can end in, as a value. \<open>UnknownVolume\<close>,
  \<open>AlreadyAttachedVolume\<close> and \<open>UnattachedVolume\<close> are imported from Flocker (lines 20-23),
  \<open>AttachedUnexpectedDevice\<close> is the class of lines 42-65, \<open>Exception\<close> is the generic
  exception of line 328 with its message; the others are Python's own.
\<close>

datatype error =
    SyntaxError
  | NameError string
  | TypeError
  | KeyError string
  | ValueError
  | UnicodeDecodeError
  | UnknownVolume string
  | AlreadyAttachedVolume string
  | UnattachedVolume string
  | AttachedUnexpectedDevice string string
  | Exception string

definition and_then :: "error + 'a \<Rightarrow> ('a \<Rightarrow> error + 'b) \<Rightarrow> error + 'b" where
  "and_then r f = (case r of Inl e \<Rightarrow> Inl e | Inr x \<Rightarrow> f x)"

subsection \<open>Compiling the module\<close>

text \<open>
  The encoding. Python 2 reads a source file as ASCII unless a comment in one of its
  first two lines declares an encoding (\<open>coding:\<close> or \<open>coding=\<close>); a byte of 128 or
  more in a file without such a line is a \<open>SyntaxError\<close>, also inside a comment. The
  first two lines of the module are the start of its docstring; line 186 is the
  comment with the sample command, whose four dashes are the three bytes E2 80 93
  each.
\<close>

definition line_1 :: string where
  "line_1 = [CHR 0x22, CHR 0x22, CHR 0x22]"

definition line_2 :: string where
  "line_2 = ''A CIO implementation of the '' @ [CHR 0x60, CHR 0x60] @ ''IBlockDeviceAPI''
             @ [CHR 0x60, CHR 0x60] @ ''.''"

definition line_186 :: string where
  "line_186 =
     ''        # '' @ [CHR 0x27] @ ''cio vdadd '' @ [CHR 0xE2, CHR 0x80, CHR 0x93]
     @ ''c 25 '' @ [CHR 0xE2, CHR 0x80, CHR 0x93] @ ''l 2 '' @ [CHR 0xE2, CHR 0x80, CHR 0x93]
     @ ''t ssd '' @ [CHR 0xE2, CHR 0x80, CHR 0x93] @ ''i 1000 2000 '' @ [CHR 0x27]"

definition ascii_only :: "string \<Rightarrow> bool" where
  "ascii_only l = list_all (\<lambda>c. (of_char c :: nat) < 128) l"

fun contains :: "string \<Rightarrow> string \<Rightarrow> bool" where
  "contains sub [] = (sub = [])"
| "contains sub (c # cs) = (take (length sub) (c # cs) = sub \<or> contains sub cs)"

definition declares_coding :: "string \<Rightarrow> bool" where
  "declares_coding l =
     (take 1 (dropWhile (\<lambda>c. c = CHR '' '') l) = ''#''
      \<and> (contains ''coding:'' l \<or> contains ''coding='' l))"

definition check_encoding :: "string list \<Rightarrow> string list \<Rightarrow> error + unit" where
  "check_encoding first_two others =
     (if list_ex declares_coding first_two then Inr ()
      else if list_all ascii_only (first_two @ others) then Inr ()
      else Inl SyntaxError)"

text \<open>
  The grammar of a list display: an opening bracket, then atoms separated by commas,
  with an optional comma after the last, then the closing bracket. Strings that
  follow one another are one atom (their concatenation); nothing else may follow an
  atom but a comma or the bracket. \<open>command_tokens\<close> are the tokens of the right-hand
  side of lines 195-196, in order: the tokenizer reads \<^verbatim>\<open>2b"--bytes"\<close> as the
  number \<open>2\<close> and then the string \<^verbatim>\<open>b"--bytes"\<close>.
\<close>

datatype token = STRING string | NUMBER int | NAME string | COMMA | LBRACKET | RBRACKET

datatype atom = Str string | Num int | Name string

fun atom_of :: "token \<Rightarrow> atom option" where
  "atom_of (STRING s) = Some (Str s)"
| "atom_of (NUMBER n) = Some (Num n)"
| "atom_of (NAME x) = Some (Name x)"
| "atom_of t = None"

fun parse_items :: "token list \<Rightarrow> error + atom list" where
  "parse_items [RBRACKET] = Inr []"
| "parse_items (STRING a # STRING b # ts) = parse_items (STRING (a @ b) # ts)"
| "parse_items [t, RBRACKET] =
     (case atom_of t of None \<Rightarrow> Inl SyntaxError | Some a \<Rightarrow> Inr [a])"
| "parse_items (t # COMMA # ts) =
     (case atom_of t of
        None \<Rightarrow> Inl SyntaxError
      | Some a \<Rightarrow> and_then (parse_items ts) (\<lambda>as. Inr (a # as)))"
| "parse_items ts = Inl SyntaxError"

fun parse_list_display :: "token list \<Rightarrow> error + atom list" where
  "parse_list_display (LBRACKET # ts) = parse_items ts"
| "parse_list_display ts = Inl SyntaxError"

definition command_tokens :: "token list" where
  "command_tokens =
     [LBRACKET, STRING ''/usr/bin/cio'', COMMA, STRING ''-c'', COMMA, NAME ''size'', COMMA,
      STRING ''-l'', COMMA, NUMBER 2, STRING ''--bytes'', COMMA,
      STRING ''--output'', COMMA, STRING ''SIZE'', COMMA, NAME ''device_name'', RBRACKET]"

text \<open>
  Compilation succeeds only when every line passes; these are the two checks that the
  module fails. What a compiled module hands to the body of \<open>create_volume\<close> is the
  parsed display of lines 195-196.
\<close>

record compiled_module =
  command_display :: "atom list"

definition compile_module :: "error + compiled_module" where
  "compile_module =
     and_then (check_encoding [line_1, line_2] [line_186]) (\<lambda>u.
       and_then (parse_list_display command_tokens) (\<lambda>atoms.
         Inr \<lparr>command_display = atoms\<rparr>))"

subsection \<open>The source text in tables\<close>

text \<open>
  The names the class body binds, in source order, and those of them that do not start
  with an underscore: the public methods.
\<close>

definition class_body_names :: "string list" where
  "class_body_names =
    [''__init__'', ''allocation_unit'', ''compute_instance_id'', ''_get_cio_volume'',
     ''create_volume'', ''list_volumes'', ''attach_volume'', ''detach_volume'',
     ''destroy_volume'', ''get_device_path'']"

definition public_operations :: "string list" where
  "public_operations = filter (\<lambda>n. take 1 n \<noteq> ''_'') class_body_names"

text \<open>
  The statements of each method body, top level only, without the docstring and the
  comments. The fourth statement of \<open>create_volume\<close> is the assignment of lines
  195-196; it is a statement only if its right-hand side parses.
\<close>

datatype statement = Assign | Return | If | For | Raise | Malformed

definition assignment_of :: "token list \<Rightarrow> statement" where
  "assignment_of rhs = (case parse_list_display rhs of Inl e \<Rightarrow> Malformed | Inr as \<Rightarrow> Assign)"

definition method_bodies :: "(string \<times> statement list) list" where
  "method_bodies =
    [(''__init__'', [Assign, Assign]),
     (''allocation_unit'', [Return]),
     (''compute_instance_id'', [Return]),
     (''_get_cio_volume'', [For, Raise]),
     (''create_volume'',
        [Assign, Assign, Assign, assignment_of command_tokens, Assign, Return]),
     (''list_volumes'', [Assign, If, Return]),
     (''attach_volume'', [Assign, Assign, Return]),
     (''detach_volume'', [Assign]),
     (''destroy_volume'', [Assign]),
     (''get_device_path'', [Assign, Assign, If, Assign, If, Return])]"

definition comment_only :: "string \<Rightarrow> bool" where
  "comment_only name = (map_of method_bodies name = Some [])"

definition non_executable :: "string \<Rightarrow> bool" where
  "non_executable name =
     (case map_of method_bodies name of None \<Rightarrow> False | Some body \<Rightarrow> Malformed \<in> set body)"

text \<open>
  The \<open>raise\<close> statements of the module: line, function, exception class, and whether
  the statement is code or stands in a comment. (The \<open>:raises\<close> lines of the
  docstrings are not statements.)
\<close>

datatype presence = Live | Commented_out

definition raise_statements :: "(nat \<times> string \<times> string \<times> presence) list" where
  "raise_statements =
    [(171, ''_get_cio_volume'', ''UnknownVolume'', Live),
     (251, ''attach_volume'', ''AlreadyAttachedVolume'', Commented_out),
     (280, ''detach_volume'', ''UnattachedVolume'', Commented_out),
     (323, ''get_device_path'', ''UnattachedVolume'', Live),
     (328, ''get_device_path'', ''Exception'', Live)]"

definition live_raises :: "string \<Rightarrow> nat list" where
  "live_raises cls =
     map fst (filter (\<lambda>(l, f, c, s). c = cls \<and> s = Live) raise_statements)"

definition named_error_classes :: "string list" where
  "named_error_classes =
     [''UnknownVolume'', ''AlreadyAttachedVolume'', ''UnattachedVolume'',
      ''AttachedUnexpectedDevice'']"

subsection \<open>Data\<close>

text \<open>
  A UUID is its 128-bit integer: Python compares two \<open>UUID\<close> objects by that integer.
\<close>

type_synonym uuid = nat

text \<open>
  The CIO volume object. Its class is not fixed by the source (the docstrings say
  "TODO identify CIO volume type"); the fields are the attributes the code reads:
  \<open>id\<close>, \<open>size\<close>, \<open>attach_data.instance_id\<close>, \<open>attach_data.device\<close> and the
  dictionary \<open>tags\<close>. The identifier is taken to be text already, so that
  \<open>unicode(cio_volume.id)\<close> is the identifier itself.
\<close>

record attach_data =
  instance_id :: "string option"
  device :: "string option"

record cio_volume =
  vol_id :: string
  vol_size :: int
  attach_data :: attach_data
  tags :: "string \<rightharpoonup> string"

text \<open>Flocker's \<open>BlockDeviceVolume\<close>, with the four fields line 90-95 pass to it.\<close>

record BlockDeviceVolume =
  blockdevice_id :: string
  size_bytes :: int
  attached_to :: "string option"
  dataset_id :: uuid

text \<open>
  The instance: \<open>__init__\<close> (lines 125-133) stores the cluster id and a fresh
  \<open>threading.Lock()\<close>, which is created unlocked.
\<close>

datatype lock_state = Unlocked | Locked

record CIOBlockDeviceAPI =
  cluster_id :: uuid
  lock :: lock_state

definition init :: "uuid \<Rightarrow> CIOBlockDeviceAPI" where
  "init cluster_id' = \<lparr>cluster_id = cluster_id', lock = Unlocked\<rparr>"

subsection \<open>What lies outside the module\<close>

text \<open>
  Three things the bodies call are library code and a network service, not code of the
  module; they are parameters of the model:
  \<^item> \<open>UUID_of\<close>: the constructor \<open>uuid.UUID(s)\<close>, which raises on a malformed string;
  \<^item> \<open>unicode_of_UUID\<close>: \<open>unicode(u)\<close> of a UUID;
  \<^item> \<open>get_instance_metadata\<close>: boto's call to the instance metadata service, which
    gives a dictionary of byte strings, or \<open>None\<close> when the service cannot be reached.
\<close>

record platform =
  UUID_of :: "string \<Rightarrow> error + uuid"
  unicode_of_UUID :: "uuid \<Rightarrow> string"
  get_instance_metadata :: "(string \<rightharpoonup> string) option"

text \<open>
  \<open>GiB(n).to_Byte().value\<close> of bitmath, followed by \<open>int\<close>: \<open>n\<close> times \<open>1024 ^ 3\<close>.
\<close>

definition GiB_to_Byte :: "int \<Rightarrow> int" where
  "GiB_to_Byte n = n * 1024 ^ 3"

text \<open>\<open>d[k]\<close> on a dictionary raises \<open>KeyError\<close> for a missing key.\<close>

definition getitem :: "(string \<rightharpoonup> 'v) \<Rightarrow> string \<Rightarrow> error + 'v" where
  "getitem d k = (case d k of None \<Rightarrow> Inl (KeyError k) | Some v \<Rightarrow> Inr v)"

text \<open>\<open>b.decode("ascii")\<close> raises when a byte is 128 or more.\<close>

definition decode_ascii :: "string \<Rightarrow> error + string" where
  "decode_ascii b =
     (if list_all (\<lambda>c. (of_char c :: nat) < 128) b then Inr b else Inl UnicodeDecodeError)"

subsection \<open>The names the module binds\<close>

text \<open>
  A name that is not a local of the running function is looked up in the module's
  global namespace and then among the builtins; when neither binds it Python raises
  \<open>NameError\<close>. \<open>module_globals\<close> lists every name the module binds at top level, in
  source order: the imports of lines 5-23, the constants of lines 25-27, and the
  classes and functions of lines 29-120. The values say what kind of object a name is
  bound to; the other kinds are the objects a body holds in its locals, or would need
  behind the names it reads.
\<close>

datatype pyval =
    PyModule string
  | PyClass string
  | PyFunction string
  | PyBuiltin string
  | PyUnicode string
  | PyBytes string
  | PyInt int
  | PyUUID uuid
  | PyInstance
  | PyList "pyval list"
  | PyDict "string \<rightharpoonup> string"
  | PyVolume cio_volume
  | PyVolumeList "cio_volume list"
  | PyBlockDeviceVolume BlockDeviceVolume
  | PyPathFunction "string option \<Rightarrow> error + string"

definition DATASET_ID_LABEL :: string where
  "DATASET_ID_LABEL = ''flocker-dataset-id''"

definition METADATA_VERSION_LABEL :: string where
  "METADATA_VERSION_LABEL = ''flocker-metadata-version''"

definition CLUSTER_ID_LABEL :: string where
  "CLUSTER_ID_LABEL = ''flocker-cluster-id''"

definition module_globals :: "(string \<times> pyval) list" where
  "module_globals =
    [(''check_output'', PyFunction ''subprocess.check_output''),
     (''threading'', PyModule ''threading''),
     (''time'', PyModule ''time''),
     (''logging'', PyModule ''logging''),
     (''UUID'', PyClass ''uuid.UUID''),
     (''Byte'', PyClass ''bitmath.Byte''),
     (''GiB'', PyClass ''bitmath.GiB''),
     (''get_instance_metadata'', PyFunction ''boto.utils.get_instance_metadata''),
     (''PRecord'', PyClass ''pyrsistent.PRecord''),
     (''field'', PyFunction ''pyrsistent.field''),
     (''pset'', PyFunction ''pyrsistent.pset''),
     (''pmap'', PyFunction ''pyrsistent.pmap''),
     (''implementer'', PyClass ''zope.interface.implementer''),
     (''FilePath'', PyClass ''twisted.python.filepath.FilePath''),
     (''Message'', PyClass ''eliot.Message''),
     (''IBlockDeviceAPI'', PyClass ''flocker.node.agents.blockdevice.IBlockDeviceAPI''),
     (''BlockDeviceVolume'', PyClass ''flocker.node.agents.blockdevice.BlockDeviceVolume''),
     (''UnknownVolume'', PyClass ''flocker.node.agents.blockdevice.UnknownVolume''),
     (''AlreadyAttachedVolume'',
        PyClass ''flocker.node.agents.blockdevice.AlreadyAttachedVolume''),
     (''UnattachedVolume'', PyClass ''flocker.node.agents.blockdevice.UnattachedVolume''),
     (''DATASET_ID_LABEL'', PyUnicode DATASET_ID_LABEL),
     (''METADATA_VERSION_LABEL'', PyUnicode METADATA_VERSION_LABEL),
     (''CLUSTER_ID_LABEL'', PyUnicode CLUSTER_ID_LABEL),
     (''EliotLogHandler'', PyClass ''EliotLogHandler''),
     (''AttachedUnexpectedDevice'', PyClass ''AttachedUnexpectedDevice''),
     (''cio_client'', PyFunction ''cio_client''),
     (''_blockdevicevolume_from_cio_volume'',
        PyFunction ''_blockdevicevolume_from_cio_volume''),
     (''_is_cluster_volume'', PyFunction ''_is_cluster_volume''),
     (''CIOBlockDeviceAPI'', PyClass ''CIOBlockDeviceAPI''),
     (''__name__'', PyUnicode ''cio''),
     (''__doc__'', PyUnicode ''A CIO implementation of the IBlockDeviceAPI.''),
     (''__file__'', PyUnicode ''cio.py''),
     (''__package__'', PyBuiltin ''None''),
     (''__builtins__'', PyModule ''__builtin__'')]"

text \<open>The names of Python 2.7's builtin namespace.\<close>

definition builtins :: "string list" where
  "builtins =
    [''abs'', ''all'', ''any'', ''apply'', ''basestring'', ''bin'', ''bool'', ''buffer'',
     ''bytearray'', ''bytes'', ''callable'', ''chr'', ''classmethod'', ''cmp'', ''coerce'',
     ''compile'', ''complex'', ''copyright'', ''credits'', ''delattr'', ''dict'', ''dir'',
     ''divmod'', ''enumerate'', ''eval'', ''execfile'', ''exit'', ''file'', ''filter'',
     ''float'', ''format'', ''frozenset'', ''getattr'', ''globals'', ''hasattr'', ''hash'',
     ''help'', ''hex'', ''id'', ''input'', ''int'', ''intern'', ''isinstance'',
     ''issubclass'', ''iter'', ''len'', ''license'', ''list'', ''locals'', ''long'', ''map'',
     ''max'', ''memoryview'', ''min'', ''next'', ''object'', ''oct'', ''open'', ''ord'',
     ''pow'', ''print'', ''property'', ''quit'', ''range'', ''raw_input'', ''reduce'',
     ''reload'', ''repr'', ''reversed'', ''round'', ''set'', ''setattr'', ''slice'',
     ''sorted'', ''staticmethod'', ''str'', ''sum'', ''super'', ''tuple'', ''type'',
     ''unichr'', ''unicode'', ''vars'', ''xrange'', ''zip'', ''__import__'',
     ''True'', ''False'', ''None'', ''Ellipsis'', ''NotImplemented'', ''__debug__'',
     ''__doc__'', ''__name__'', ''__package__'',
     ''ArithmeticError'', ''AssertionError'', ''AttributeError'', ''BaseException'',
     ''BufferError'', ''BytesWarning'', ''DeprecationWarning'', ''EOFError'',
     ''EnvironmentError'', ''Exception'', ''FloatingPointError'', ''FutureWarning'',
     ''GeneratorExit'', ''IOError'', ''ImportError'', ''ImportWarning'',
     ''IndentationError'', ''IndexError'', ''KeyError'', ''KeyboardInterrupt'',
     ''LookupError'', ''MemoryError'', ''NameError'', ''NotImplementedError'', ''OSError'',
     ''OverflowError'', ''PendingDeprecationWarning'', ''ReferenceError'',
     ''RuntimeError'', ''RuntimeWarning'', ''StandardError'', ''StopIteration'',
     ''SyntaxError'', ''SyntaxWarning'', ''SystemError'', ''SystemExit'', ''TabError'',
     ''TypeError'', ''UnboundLocalError'', ''UnicodeDecodeError'', ''UnicodeEncodeError'',
     ''UnicodeError'', ''UnicodeTranslateError'', ''UnicodeWarning'', ''UserWarning'',
     ''ValueError'', ''Warning'', ''ZeroDivisionError'']"

definition global_ref :: "string \<Rightarrow> error + pyval" where
  "global_ref n =
     (case map_of module_globals n of
        Some v \<Rightarrow> Inr v
      | None \<Rightarrow> if n \<in> set builtins then Inr (PyBuiltin n) else Inl (NameError n))"

text \<open>A name read inside a function: its locals first, then the globals.\<close>

type_synonym frame = "string \<rightharpoonup> pyval"

definition name_ref :: "frame \<Rightarrow> string \<Rightarrow> error + pyval" where
  "name_ref locals n = (case locals n of Some v \<Rightarrow> Inr v | None \<Rightarrow> global_ref n)"

text \<open>
  The names three of the method bodies bind (parameters and assigned names) and the
  names they read, in order of first occurrence; \<open>unbound_reads\<close> are the names a body
  reads that neither the body nor the module nor the builtins bind.
\<close>

definition body_names :: "(string \<times> string list \<times> string list) list" where
  "body_names =
    [(''create_volume'',
        [''self'', ''dataset_id'', ''size'', ''redundancy'', ''min_iops'', ''max_iops'',
         ''command'', ''metadata''],
        [''size'', ''device_name'', ''METADATA_VERSION_LABEL'', ''CLUSTER_ID_LABEL'',
         ''unicode'', ''self'', ''DATASET_ID_LABEL'', ''dataset_id'',
         ''_blockdevicevolume_from_cio_volume'', ''requested_volume'']),
     (''list_volumes'',
        [''self'', ''volumes''],
        [''_is_cluster_volume'', ''self'', ''cio_volume'', ''volumes'',
         ''_blockdevicevolume_from_cio_volume'']),
     (''attach_volume'',
        [''self'', ''blockdevice_id'', ''attach_to'', ''cio_volume'', ''volume''],
        [''self'', ''blockdevice_id'', ''_blockdevicevolume_from_cio_volume'',
         ''cio_volume'', ''attached_volume''])]"

definition unbound_reads :: "string \<Rightarrow> string list" where
  "unbound_reads name =
     (case map_of body_names name of
        None \<Rightarrow> []
      | Some (bound, reads) \<Rightarrow>
          filter (\<lambda>n. n \<notin> set bound \<and> isl (global_ref n)) reads)"

text \<open>
  What a body does with the object behind a name: read it as a volume (its attributes
  are read), iterate over it as a list of volumes, return it as a
  \<open>BlockDeviceVolume\<close>, or call it on a device name. An object of another kind does
  not support the use and the use raises \<open>TypeError\<close>.
\<close>

fun as_volume :: "pyval \<Rightarrow> error + cio_volume" where
  "as_volume (PyVolume v) = Inr v"
| "as_volume _ = Inl TypeError"

fun as_volume_list :: "pyval \<Rightarrow> error + cio_volume list" where
  "as_volume_list (PyVolumeList vs) = Inr vs"
| "as_volume_list _ = Inl TypeError"

fun as_blockdevicevolume :: "pyval \<Rightarrow> error + BlockDeviceVolume" where
  "as_blockdevicevolume (PyBlockDeviceVolume v) = Inr v"
| "as_blockdevicevolume _ = Inl TypeError"

fun call_path_function :: "pyval \<Rightarrow> string option \<Rightarrow> error + string" where
  "call_path_function (PyPathFunction f) d = f d"
| "call_path_function _ d = Inl TypeError"

subsection \<open>The module-level helpers\<close>

text \<open>
  \<open>_blockdevicevolume_from_cio_volume\<close> (lines 81-95). The keyword arguments are
  evaluated in the order written: \<open>unicode(cio_volume.id)\<close>, then the size, which
  reads the name \<open>ebs_volume\<close>, then \<open>attach_data.instance_id\<close>, then the UUID of the
  tag \<open>flocker-dataset-id\<close>.
\<close>

definition blockdevicevolume_from_cio_volume ::
  "platform \<Rightarrow> cio_volume \<Rightarrow> error + BlockDeviceVolume" where
  "blockdevicevolume_from_cio_volume p cio_volume =
     (let blockdevice_id' = vol_id cio_volume in
      and_then (and_then (global_ref ''ebs_volume'') as_volume) (\<lambda>ebs_volume.
        let size' = GiB_to_Byte (vol_size ebs_volume);
            attached_to' = instance_id (attach_data cio_volume) in
        and_then (getitem (tags cio_volume) DATASET_ID_LABEL) (\<lambda>tag.
          and_then (UUID_of p tag) (\<lambda>dataset_id'.
            Inr \<lparr>blockdevice_id = blockdevice_id', size_bytes = size',
                 attached_to = attached_to', dataset_id = dataset_id'\<rparr>))))"

text \<open>\<open>_is_cluster_volume\<close> (lines 98-116).\<close>

definition is_cluster_volume :: "platform \<Rightarrow> uuid \<Rightarrow> cio_volume \<Rightarrow> error + bool" where
  "is_cluster_volume p cluster_id' cio_volume =
     (case tags cio_volume CLUSTER_ID_LABEL of
        None \<Rightarrow> Inr False
      | Some actual_cluster_id \<Rightarrow>
          and_then (UUID_of p actual_cluster_id) (\<lambda>actual_cluster_id.
            if actual_cluster_id = cluster_id' then Inr True else Inr False))"

subsection \<open>Methods\<close>

text \<open>
  A method receives the instance and may change it, so it is a function from the
  instance to the outcome (an error or a value) and the instance afterwards.
\<close>

type_synonym 'a bound_method = "CIOBlockDeviceAPI \<Rightarrow> (error + 'a) \<times> CIOBlockDeviceAPI"

definition return_value :: "'a \<Rightarrow> 'a bound_method" where
  "return_value x = (\<lambda>self. (Inr x, self))"

definition raise :: "error \<Rightarrow> 'a bound_method" where
  "raise e = (\<lambda>self. (Inl e, self))"

definition evaluate :: "error + 'a \<Rightarrow> 'a bound_method" where
  "evaluate r = (\<lambda>self. (r, self))"

definition then_do :: "'a bound_method \<Rightarrow> ('a \<Rightarrow> 'b bound_method) \<Rightarrow> 'b bound_method" where
  "then_do m f = (\<lambda>self.
     case m self of
       (Inl e, self') \<Rightarrow> (Inl e, self')
     | (Inr x, self') \<Rightarrow> f x self')"

text \<open>\<open>allocation_unit\<close> (lines 135-140).\<close>

definition allocation_unit :: "int bound_method" where
  "allocation_unit = return_value (GiB_to_Byte 8)"

text \<open>
  \<open>compute_instance_id\<close> (lines 142-149):
  \<open>get_instance_metadata()['instance-id'].decode("ascii")\<close>.
\<close>

definition compute_instance_id :: "platform \<Rightarrow> string bound_method" where
  "compute_instance_id p =
     evaluate
       (case get_instance_metadata p of
          None \<Rightarrow> Inl TypeError
        | Some metadata \<Rightarrow> and_then (getitem metadata ''instance-id'') decode_ascii)"

text \<open>
  \<open>_get_cio_volume\<close> (lines 151-171). The assignment to \<open>all_volumes\<close> is commented
  out, so the loop header reads it as a global name. \<open>find_volume\<close> is the loop.
\<close>

fun find_volume :: "string \<Rightarrow> cio_volume list \<Rightarrow> cio_volume option" where
  "find_volume blockdevice_id' [] = None"
| "find_volume blockdevice_id' (volume # rest) =
     (if vol_id volume = blockdevice_id' then Some volume
      else find_volume blockdevice_id' rest)"

definition get_cio_volume :: "string \<Rightarrow> cio_volume bound_method" where
  "get_cio_volume blockdevice_id' =
     then_do (evaluate (and_then (global_ref ''all_volumes'') as_volume_list))
       (\<lambda>all_volumes.
          case find_volume blockdevice_id' all_volumes of
            Some volume \<Rightarrow> return_value volume
          | None \<Rightarrow> raise (UnknownVolume blockdevice_id'))"

text \<open>
  \<open>create_volume\<close> (lines 174-211), with its locals: the outcome and the frame at the
  end of the call. The three assignments of lines 192-194 come first; then the
  display of lines 195-196, as the compiled module holds it, is evaluated atom by atom
  from the left and bound to \<open>command\<close>; then the dictionary of lines 199-203 is bound
  to \<open>metadata\<close>; then the return statement reads the name \<open>requested_volume\<close>, whose
  assignment is commented out.
\<close>

fun eval_atom :: "frame \<Rightarrow> atom \<Rightarrow> error + pyval" where
  "eval_atom locals (Str s) = Inr (PyBytes s)"
| "eval_atom locals (Num n) = Inr (PyInt n)"
| "eval_atom locals (Name x) = name_ref locals x"

fun eval_display :: "frame \<Rightarrow> atom list \<Rightarrow> error + pyval list" where
  "eval_display locals [] = Inr []"
| "eval_display locals (a # as) =
     and_then (eval_atom locals a) (\<lambda>v.
       and_then (eval_display locals as) (\<lambda>vs. Inr (v # vs)))"

definition volume_metadata :: "platform \<Rightarrow> CIOBlockDeviceAPI \<Rightarrow> uuid \<Rightarrow> (string \<rightharpoonup> string)" where
  "volume_metadata p self dataset_id' =
     Map.empty
       (METADATA_VERSION_LABEL \<mapsto> ''1'',
        CLUSTER_ID_LABEL \<mapsto> unicode_of_UUID p (cluster_id self),
        DATASET_ID_LABEL \<mapsto> unicode_of_UUID p dataset_id')"

definition create_volume ::
  "platform \<Rightarrow> compiled_module \<Rightarrow> uuid \<Rightarrow> int \<Rightarrow> CIOBlockDeviceAPI
     \<Rightarrow> (error + BlockDeviceVolume) \<times> frame" where
  "create_volume p m dataset_id' size' self =
     (let parameters = [''self'' \<mapsto> PyInstance, ''dataset_id'' \<mapsto> PyUUID dataset_id',
                        ''size'' \<mapsto> PyInt size'];
          locals = parameters(''redundancy'' \<mapsto> PyInt 2, ''min_iops'' \<mapsto> PyInt 1000,
                              ''max_iops'' \<mapsto> PyInt 2000)
      in case eval_display locals (command_display m) of
           Inl e \<Rightarrow> (Inl e, locals)
         | Inr command \<Rightarrow>
             (let locals = locals(''command'' \<mapsto> PyList command);
                  locals = locals(''metadata'' \<mapsto> PyDict (volume_metadata p self dataset_id'))
              in (and_then (and_then (name_ref locals ''requested_volume'') as_volume)
                    (blockdevicevolume_from_cio_volume p),
                  locals)))"

text \<open>
  \<open>list_volumes\<close> (lines 213-225). The loop that would bind \<open>cio_volume\<close> is commented
  out; the call of line 221 evaluates \<open>self.cluster_id\<close> and then the name.
\<close>

definition list_volumes :: "platform \<Rightarrow> BlockDeviceVolume list bound_method" where
  "list_volumes p = (\<lambda>self.
     (let volumes = [] in
      then_do (evaluate (and_then (global_ref ''cio_volume'') as_volume)) (\<lambda>cio_volume.
        then_do (evaluate (is_cluster_volume p (cluster_id self) cio_volume)) (\<lambda>belongs.
          if belongs
          then then_do (evaluate (blockdevicevolume_from_cio_volume p cio_volume))
                 (\<lambda>v. return_value (volumes @ [v]))
          else return_value volumes))) self)"

text \<open>
  \<open>attach_volume\<close> (lines 227-263). Both raising statements of the docstring and the
  assignment to \<open>attached_volume\<close> are commented out.
\<close>

definition attach_volume :: "platform \<Rightarrow> string \<Rightarrow> string \<Rightarrow> BlockDeviceVolume bound_method" where
  "attach_volume p blockdevice_id' attach_to =
     then_do (get_cio_volume blockdevice_id') (\<lambda>cio_volume.
       then_do (evaluate (blockdevicevolume_from_cio_volume p cio_volume)) (\<lambda>volume.
         evaluate (and_then (global_ref ''attached_volume'') as_blockdevicevolume)))"

text \<open>
  \<open>detach_volume\<close> (lines 265-285) and \<open>destroy_volume\<close> (lines 287-305): the lookup,
  then comments only, so a call that gets past the lookup returns \<open>None\<close>.
\<close>

definition detach_volume :: "string \<Rightarrow> unit bound_method" where
  "detach_volume blockdevice_id' =
     then_do (get_cio_volume blockdevice_id') (\<lambda>cio_volume. return_value ())"

definition destroy_volume :: "string \<Rightarrow> unit bound_method" where
  "destroy_volume blockdevice_id' =
     then_do (get_cio_volume blockdevice_id') (\<lambda>cio_volume. return_value ())"

text \<open>
  \<open>get_device_path\<close> (lines 307-334). The call of line 334 evaluates the name
  \<open>_expected_device\<close> before its argument.
\<close>

definition get_device_path :: "platform \<Rightarrow> string \<Rightarrow> string bound_method" where
  "get_device_path p blockdevice_id' =
     then_do (get_cio_volume blockdevice_id') (\<lambda>cio_volume.
       then_do (evaluate (blockdevicevolume_from_cio_volume p cio_volume)) (\<lambda>volume.
         case attached_to volume of
           None \<Rightarrow> raise (UnattachedVolume blockdevice_id')
         | Some host \<Rightarrow>
             then_do (compute_instance_id p) (\<lambda>compute_instance_id'.
               if host \<noteq> compute_instance_id'
               then raise (Exception (''Volume is attached to '' @ host @ '', not to ''
                                        @ compute_instance_id'))
               else then_do (evaluate (global_ref ''_expected_device'')) (\<lambda>expected_device.
                      evaluate (call_path_function expected_device
                                  (device (attach_data cio_volume)))))))"

subsection \<open>Running an operation\<close>

text \<open>A call of a public method with its arguments, and what a call returns.\<close>

datatype operation =
    Allocation_unit
  | Compute_instance_id
  | Create_volume uuid int
  | List_volumes
  | Attach_volume string string
  | Detach_volume string
  | Destroy_volume string
  | Get_device_path string

datatype result =
    IntValue int
  | UnicodeValue string
  | VolumeValue BlockDeviceVolume
  | VolumesValue "BlockDeviceVolume list"
  | NoneValue

fun operation_name :: "operation \<Rightarrow> string" where
  "operation_name Allocation_unit = ''allocation_unit''"
| "operation_name Compute_instance_id = ''compute_instance_id''"
| "operation_name (Create_volume d s) = ''create_volume''"
| "operation_name List_volumes = ''list_volumes''"
| "operation_name (Attach_volume b a) = ''attach_volume''"
| "operation_name (Detach_volume b) = ''detach_volume''"
| "operation_name (Destroy_volume b) = ''destroy_volume''"
| "operation_name (Get_device_path b) = ''get_device_path''"

definition returning :: "('a \<Rightarrow> result) \<Rightarrow> 'a bound_method \<Rightarrow> result bound_method" where
  "returning f m = then_do m (\<lambda>x. return_value (f x))"

text \<open>
  \<open>run_body\<close> runs the body of an operation in a loaded module. \<open>run_operation\<close> is
  what an attempt to run the operation comes to: the module is compiled first, and
  the body is reached only when that succeeds; otherwise the attempt ends in the
  compile error and nothing of the module has run.
\<close>

fun run_body :: "platform \<Rightarrow> compiled_module \<Rightarrow> operation \<Rightarrow> result bound_method" where
  "run_body p m Allocation_unit = returning IntValue allocation_unit"
| "run_body p m Compute_instance_id = returning UnicodeValue (compute_instance_id p)"
| "run_body p m (Create_volume d s) =
     returning VolumeValue (\<lambda>self. (fst (create_volume p m d s self), self))"
| "run_body p m List_volumes = returning VolumesValue (list_volumes p)"
| "run_body p m (Attach_volume b a) = returning VolumeValue (attach_volume p b a)"
| "run_body p m (Detach_volume b) = returning (\<lambda>u. NoneValue) (detach_volume b)"
| "run_body p m (Destroy_volume b) = returning (\<lambda>u. NoneValue) (destroy_volume b)"
| "run_body p m (Get_device_path b) = returning UnicodeValue (get_device_path p b)"

definition run_operation :: "platform \<Rightarrow> operation \<Rightarrow> result bound_method" where
  "run_operation p op =
     (case compile_module of Inl e \<Rightarrow> raise e | Inr m \<Rightarrow> run_body p m op)"

text \<open>
  The same for a call of \<open>create_volume\<close> together with its frame (no frame exists
  when the module does not compile), and for a call of the helper
  \<open>_is_cluster_volume\<close>.
\<close>

definition call_create_volume ::
  "platform \<Rightarrow> uuid \<Rightarrow> int \<Rightarrow> CIOBlockDeviceAPI \<Rightarrow> (error + BlockDeviceVolume) \<times> frame" where
  "call_create_volume p dataset_id' size' self =
     (case compile_module of
        Inl e \<Rightarrow> (Inl e, Map.empty)
      | Inr m \<Rightarrow> create_volume p m dataset_id' size' self)"


text \<open>The four error kinds the module names for volumes.\<close>

fun named_error :: "error \<Rightarrow> bool" where
  "named_error (UnknownVolume b) = True"
| "named_error (AlreadyAttachedVolume b) = True"
| "named_error (UnattachedVolume b) = True"
| "named_error (AttachedUnexpectedDevice r d) = True"
| "named_error e = False"

definition raises_named_error :: "(error + 'a) \<times> CIOBlockDeviceAPI \<Rightarrow> bool" where
  "raises_named_error out = (case fst out of Inl e \<Rightarrow> named_error e | Inr x \<Rightarrow> False)"

definition returns_value :: "(error + 'a) \<times> CIOBlockDeviceAPI \<Rightarrow> bool" where
  "returns_value out = (case fst out of Inl e \<Rightarrow> False | Inr x \<Rightarrow> True)"

subsection \<open>Concrete inputs\<close>

text \<open>
  An instance of the platform for the concrete evaluations below: UUIDs in their
  canonical form (32 hexadecimal digits, hyphens ignored when reading, written in
  groups of 8-4-4-4-12), and a metadata service that knows the instance id
  \<open>i-0a1b2c3d\<close>.
\<close>

definition hex_value :: "char \<Rightarrow> nat option" where
  "hex_value c =
     (let n = (of_char c :: nat) in
      if 48 \<le> n \<and> n \<le> 57 then Some (n - 48)
      else if 97 \<le> n \<and> n \<le> 102 then Some (n - 87)
      else if 65 \<le> n \<and> n \<le> 70 then Some (n - 55)
      else None)"

fun hex_number :: "nat \<Rightarrow> string \<Rightarrow> nat option" where
  "hex_number acc [] = Some acc"
| "hex_number acc (c # cs) =
     (case hex_value c of None \<Rightarrow> None | Some d \<Rightarrow> hex_number (16 * acc + d) cs)"

definition canonical_UUID_of :: "string \<Rightarrow> error + uuid" where
  "canonical_UUID_of s =
     (let h = filter (\<lambda>c. c \<noteq> CHR ''-'') s in
      if length h \<noteq> 32 then Inl ValueError
      else (case hex_number 0 h of None \<Rightarrow> Inl ValueError | Some n \<Rightarrow> Inr n))"

fun hex_digits :: "nat \<Rightarrow> nat \<Rightarrow> string" where
  "hex_digits 0 n = []"
| "hex_digits (Suc k) n = hex_digits k (n div 16) @ [''0123456789abcdef'' ! (n mod 16)]"

definition canonical_unicode_of_UUID :: "uuid \<Rightarrow> string" where
  "canonical_unicode_of_UUID u =
     (let h = hex_digits 32 u in
      take 8 h @ ''-'' @ take 4 (drop 8 h) @ ''-'' @ take 4 (drop 12 h) @ ''-''
        @ take 4 (drop 16 h) @ ''-'' @ drop 20 h)"

definition example_platform :: platform where
  "example_platform =
     \<lparr>UUID_of = canonical_UUID_of,
      unicode_of_UUID = canonical_unicode_of_UUID,
      get_instance_metadata = Some [''instance-id'' \<mapsto> ''i-0a1b2c3d'']\<rparr>"

text \<open>
  A module as the compiler would hand it over if the display of lines 195-196 had its
  comma: the atoms of that display.
\<close>

definition example_module :: compiled_module where
  "example_module =
     \<lparr>command_display =
        [Str ''/usr/bin/cio'', Str ''-c'', Name ''size'', Str ''-l'', Num 2, Str ''--bytes'',
         Str ''--output'', Str ''SIZE'', Name ''device_name'']\<rparr>"

section \<open>The module does not compile\<close>

text \<open>
  Either check fails by itself: the encoding check on line 186 (Python 2), and the
  grammar on lines 195-196 (any Python). With the comma restored the display parses.
\<close>

lemma encoding_rejected: "check_encoding [line_1, line_2] [line_186] = Inl SyntaxError"
  by (simp add: check_encoding_def declares_coding_def ascii_only_def
      line_1_def line_2_def line_186_def)

lemma display_rejected: "parse_list_display command_tokens = Inl SyntaxError"
  by (simp add: command_tokens_def and_then_def)

lemma display_with_comma_accepted:
  "parse_list_display
     [LBRACKET, STRING ''/usr/bin/cio'', COMMA, STRING ''-c'', COMMA, NAME ''size'', COMMA,
      STRING ''-l'', COMMA, NUMBER 2, COMMA, STRING ''--bytes'', COMMA,
      STRING ''--output'', COMMA, STRING ''SIZE'', COMMA, NAME ''device_name'', RBRACKET]
   = Inr (command_display example_module)"
  by (simp add: example_module_def and_then_def)

lemma module_does_not_compile: "compile_module = Inl SyntaxError"
  by (simp add: compile_module_def encoding_rejected and_then_def)

lemma run_operation_fails: "run_operation p op self = (Inl SyntaxError, self)"
  by (simp add: run_operation_def module_does_not_compile raise_def)

lemma call_create_volume_fails:
  "call_create_volume p d s self = (Inl SyntaxError, Map.empty)"
  by (simp add: call_create_volume_def module_does_not_compile)


section \<open>Name resolution\<close>

text \<open>The names the bodies read that nothing binds.\<close>

lemma unbound_ebs_volume: "global_ref ''ebs_volume'' = Inl (NameError ''ebs_volume'')"
  by (simp add: global_ref_def module_globals_def builtins_def)

lemma unbound_all_volumes: "global_ref ''all_volumes'' = Inl (NameError ''all_volumes'')"
  by (simp add: global_ref_def module_globals_def builtins_def)

lemma unbound_device_name: "global_ref ''device_name'' = Inl (NameError ''device_name'')"
  by (simp add: global_ref_def module_globals_def builtins_def)

lemma unbound_requested_volume:
  "global_ref ''requested_volume'' = Inl (NameError ''requested_volume'')"
  by (simp add: global_ref_def module_globals_def builtins_def)

lemma unbound_cio_volume: "global_ref ''cio_volume'' = Inl (NameError ''cio_volume'')"
  by (simp add: global_ref_def module_globals_def builtins_def)

lemma unbound_attached_volume:
  "global_ref ''attached_volume'' = Inl (NameError ''attached_volume'')"
  by (simp add: global_ref_def module_globals_def builtins_def)

lemma unbound_expected_device:
  "global_ref ''_expected_device'' = Inl (NameError ''_expected_device'')"
  by (simp add: global_ref_def module_globals_def builtins_def)

lemma global_ref_error: "global_ref n = Inl e \<Longrightarrow> e = NameError n"
  by (simp add: global_ref_def split: option.splits if_splits)

lemma unbound_reads_create_volume:
  "unbound_reads ''create_volume'' = [''device_name'', ''requested_volume'']"
  by (simp add: unbound_reads_def body_names_def global_ref_def module_globals_def
      builtins_def)

lemma unbound_reads_list_volumes: "unbound_reads ''list_volumes'' = [''cio_volume'']"
  by (simp add: unbound_reads_def body_names_def global_ref_def module_globals_def
      builtins_def)

lemma unbound_reads_attach_volume: "unbound_reads ''attach_volume'' = [''attached_volume'']"
  by (simp add: unbound_reads_def body_names_def global_ref_def module_globals_def
      builtins_def)

section \<open>The bodies, in a loaded module\<close>

text \<open>
  What each body would do if the module were loaded (with whatever display the
  compiler handed over). None of this is reached by the module as it stands.
\<close>

lemma conversion_raises:
  "blockdevicevolume_from_cio_volume p v = Inl (NameError ''ebs_volume'')"
  by (simp add: blockdevicevolume_from_cio_volume_def unbound_ebs_volume and_then_def)

lemma get_cio_volume_raises:
  "get_cio_volume b self = (Inl (NameError ''all_volumes''), self)"
  by (simp add: get_cio_volume_def unbound_all_volumes and_then_def then_do_def evaluate_def)

lemma list_volumes_raises: "list_volumes p self = (Inl (NameError ''cio_volume''), self)"
  by (simp add: list_volumes_def unbound_cio_volume and_then_def then_do_def evaluate_def)

lemma attach_volume_raises:
  "attach_volume p b a self = (Inl (NameError ''all_volumes''), self)"
  by (simp add: attach_volume_def get_cio_volume_raises then_do_def)

lemma detach_volume_raises: "detach_volume b self = (Inl (NameError ''all_volumes''), self)"
  by (simp add: detach_volume_def get_cio_volume_raises then_do_def)

lemma destroy_volume_raises: "destroy_volume b self = (Inl (NameError ''all_volumes''), self)"
  by (simp add: destroy_volume_def get_cio_volume_raises then_do_def)

lemma get_device_path_raises:
  "get_device_path p b self = (Inl (NameError ''all_volumes''), self)"
  by (simp add: get_device_path_def get_cio_volume_raises then_do_def)

lemma allocation_unit_returns: "allocation_unit self = (Inr 8589934592, self)"
  by (simp add: allocation_unit_def return_value_def GiB_to_Byte_def)

lemma compute_instance_id_outcome:
  "compute_instance_id p self =
     ((case get_instance_metadata p of
         None \<Rightarrow> Inl TypeError
       | Some metadata \<Rightarrow>
           (case metadata ''instance-id'' of
              None \<Rightarrow> Inl (KeyError ''instance-id'')
            | Some b \<Rightarrow>
                if list_all (\<lambda>c. (of_char c :: nat) < 128) b then Inr b
                else Inl UnicodeDecodeError)), self)"
  by (simp add: compute_instance_id_def evaluate_def and_then_def getitem_def decode_ascii_def
      split: option.splits)

lemma eval_atom_error: "eval_atom locals a = Inl e \<Longrightarrow> \<exists>n. e = NameError n"
  by (cases a) (auto simp add: name_ref_def split: option.splits dest: global_ref_error)

lemma eval_display_error: "eval_display locals as = Inl e \<Longrightarrow> \<exists>n. e = NameError n"
proof (induction as arbitrary: e)
  case Nil
  then show ?case by simp
next
  case (Cons a as)
  then show ?case
    by (auto simp add: and_then_def split: sum.splits dest: eval_atom_error)
qed

lemma create_volume_outcome: "\<exists>n. fst (create_volume p m d s self) = Inl (NameError n)"
  by (auto simp add: create_volume_def Let_def name_ref_def unbound_requested_volume
      and_then_def split: sum.splits dest: eval_display_error)

lemma create_volume_ignores_self:
  "fst (create_volume p m d s self) = fst (create_volume p m d s self')"
  by (simp add: create_volume_def Let_def name_ref_def unbound_requested_volume and_then_def
      split: sum.splits)

text \<open>
  With the comma of line 195 restored the body would stop at \<open>device_name\<close>, still
  before the dictionary; a body whose display evaluates goes on to bind \<open>metadata\<close>.
\<close>

lemma create_volume_example_module:
  "fst (create_volume p example_module d s self) = Inl (NameError ''device_name'')
   \<and> snd (create_volume p example_module d s self) ''metadata'' = None"
  by (simp add: create_volume_def example_module_def Let_def name_ref_def and_then_def
      unbound_device_name)

lemma create_volume_binds_metadata_when_reached:
  "snd (create_volume p \<lparr>command_display = [Str ''/usr/bin/cio'', Name ''size'']\<rparr> d s self)
     ''metadata'' = Some (PyDict (volume_metadata p self d))"
  by (simp add: create_volume_def Let_def name_ref_def and_then_def)

lemma returning_raises: "m self = (Inl e, self') \<Longrightarrow> returning f m self = (Inl e, self')"
  by (simp add: returning_def then_do_def)

lemma returning_returns:
  "m self = (Inr x, self') \<Longrightarrow> returning f m self = (Inr (f x), self')"
  by (simp add: returning_def then_do_def return_value_def)

lemma run_body_raises:
  "run_body p m List_volumes self = (Inl (NameError ''cio_volume''), self)"
  "run_body p m (Attach_volume b a) self = (Inl (NameError ''all_volumes''), self)"
  "run_body p m (Detach_volume b) self = (Inl (NameError ''all_volumes''), self)"
  "run_body p m (Destroy_volume b) self = (Inl (NameError ''all_volumes''), self)"
  "run_body p m (Get_device_path b) self = (Inl (NameError ''all_volumes''), self)"
  by (simp_all add: returning_raises list_volumes_raises
      attach_volume_raises detach_volume_raises destroy_volume_raises get_device_path_raises)

lemma run_body_create_volume:
  "run_body p m (Create_volume d s) self =
     ((case fst (create_volume p m d s self) of
         Inl e \<Rightarrow> Inl e
       | Inr v \<Rightarrow> Inr (VolumeValue v)), self)"
  by (simp add: returning_def then_do_def return_value_def split: sum.splits)

lemma run_body_allocation_unit:
  "run_body p m Allocation_unit self = (Inr (IntValue 8589934592), self)"
  by (simp add: returning_returns allocation_unit_returns)

lemma run_body_compute_instance_id:
  "run_body p m Compute_instance_id self =
     ((case get_instance_metadata p of
         None \<Rightarrow> Inl TypeError
       | Some metadata \<Rightarrow>
           (case metadata ''instance-id'' of
              None \<Rightarrow> Inl (KeyError ''instance-id'')
            | Some b \<Rightarrow>
                if list_all (\<lambda>c. (of_char c :: nat) < 128) b then Inr (UnicodeValue b)
                else Inl UnicodeDecodeError)), self)"
  by (simp add: returning_def then_do_def return_value_def compute_instance_id_outcome
      split: option.splits)

lemma run_body_keeps_self: "snd (run_body p m op self) = self"
  by (cases op)
    (simp_all del: run_body.simps
      add: run_body_raises run_body_create_volume run_body_allocation_unit
        run_body_compute_instance_id)

lemma run_body_ignores_self: "fst (run_body p m op self) = fst (run_body p m op self')"
  using create_volume_ignores_self [of p m _ _ self self']
  by (cases op)
    (simp_all del: run_body.simps
      add: run_body_raises run_body_create_volume run_body_allocation_unit
        run_body_compute_instance_id)

lemma run_body_no_named_error: "\<not> raises_named_error (run_body p m op self)"
proof (cases op)
  case Compute_instance_id
  then show ?thesis
    by (simp del: run_body.simps
        add: run_body_compute_instance_id raises_named_error_def split: option.splits)
next
  case (Create_volume d s)
  then show ?thesis
    using create_volume_outcome [of p m d s self]
    by (auto simp del: run_body.simps
        simp add: run_body_create_volume raises_named_error_def)
qed (simp_all del: run_body.simps
      add: run_body_raises run_body_allocation_unit raises_named_error_def)

text \<open>
  The dictionary of lines 199-203, taken by itself: three keys, with the version
  \<open>'1'\<close>, the text of the instance's cluster id and the text of the dataset id.
\<close>

lemma volume_metadata_pairs:
  "dom (volume_metadata p self d) = {METADATA_VERSION_LABEL, CLUSTER_ID_LABEL, DATASET_ID_LABEL}
   \<and> card (dom (volume_metadata p self d)) = 3
   \<and> volume_metadata p self d METADATA_VERSION_LABEL = Some ''1''
   \<and> volume_metadata p self d CLUSTER_ID_LABEL = Some (unicode_of_UUID p (cluster_id self))
   \<and> volume_metadata p self d DATASET_ID_LABEL = Some (unicode_of_UUID p d)"
  by (auto simp add: volume_metadata_def METADATA_VERSION_LABEL_def CLUSTER_ID_LABEL_def
      DATASET_ID_LABEL_def)

section \<open>The claims\<close>

text \<open>
  C1, as stated, fails in its ground: "the condition under which each would be raised
  is an unimplemented TODO". Two of the four named errors have a raise statement that
  is code, with its condition: \<open>UnknownVolume\<close> at line 171 (after the loop of lines
  168-170) and \<open>UnattachedVolume\<close> at line 323 (under the test of line 322).
\<close>

theorem raise_conditions_counterexample:
  "\<not> list_all (\<lambda>cls. live_raises cls = []) named_error_classes
   \<and> live_raises ''UnknownVolume'' = [171]
   \<and> live_raises ''UnattachedVolume'' = [323]"
  by (simp add: live_raises_def raise_statements_def named_error_classes_def)

text \<open>
  C1, amended. For every operation and every input, none of the four named error kinds
  is raised: not by an attempt to run the operation, and not by its body in a loaded
  module. \<open>AlreadyAttachedVolume\<close> and \<open>AttachedUnexpectedDevice\<close> have no raise
  statement in the code; \<open>UnknownVolume\<close> (line 171) and \<open>UnattachedVolume\<close> (line 323)
  have one, which is never reached.
\<close>

theorem named_errors_never_raised:
  "\<not> raises_named_error (run_operation p op self)
   \<and> \<not> raises_named_error (run_body p m op self)
   \<and> live_raises ''AlreadyAttachedVolume'' = []
   \<and> live_raises ''AttachedUnexpectedDevice'' = []
   \<and> live_raises ''UnknownVolume'' = [171]
   \<and> live_raises ''UnattachedVolume'' = [323]"
proof -
  have "\<not> raises_named_error (run_operation p op self)"
    by (simp add: run_operation_fails raises_named_error_def)
  moreover have "\<not> raises_named_error (run_body p m op self)"
    by (rule run_body_no_named_error)
  moreover have "live_raises ''AlreadyAttachedVolume'' = []
    \<and> live_raises ''AttachedUnexpectedDevice'' = []
    \<and> live_raises ''UnknownVolume'' = [171]
    \<and> live_raises ''UnattachedVolume'' = [323]"
    by (simp add: live_raises_def raise_statements_def)
  ultimately show ?thesis by simp
qed

text \<open>
  C2, as stated, fails in its ground: "its body is either a comment-only placeholder
  or contains non-executable syntax". The bodies of \<open>allocation_unit\<close> and
  \<open>compute_instance_id\<close> are one return statement each.
\<close>

theorem operation_bodies_counterexample:
  "\<not> (comment_only (operation_name Allocation_unit)
        \<or> non_executable (operation_name Allocation_unit))
   \<and> \<not> (comment_only (operation_name Compute_instance_id)
        \<or> non_executable (operation_name Compute_instance_id))"
  by (simp add: comment_only_def non_executable_def method_bodies_def)

text \<open>
  C2, amended. No operation returns a value on any input, because the module does not
  compile and so no body runs. Of the bodies of the eight operations only that of
  \<open>create_volume\<close> contains non-executable syntax, and none is a comment-only
  placeholder.
\<close>

theorem no_operation_returns:
  "\<not> returns_value (run_operation p op self)
   \<and> filter non_executable public_operations = [''create_volume'']
   \<and> filter comment_only public_operations = []"
  by (simp add: run_operation_fails returns_value_def non_executable_def comment_only_def
      method_bodies_def public_operations_def class_body_names_def assignment_of_def
      display_rejected)

text \<open>
  C3, as stated, fails in the cause it gives: an attempt to run \<open>create_volume\<close>,
  \<open>list_volumes\<close> or \<open>attach_volume\<close> does not end in the \<open>NameError\<close> of the variable
  the claim names.
\<close>

theorem failure_cause_counterexample:
  "fst (run_operation example_platform (Create_volume 10 1073741824) (init 1))
     \<noteq> Inl (NameError ''requested_volume'')
   \<and> fst (run_operation example_platform List_volumes (init 1))
     \<noteq> Inl (NameError ''cio_volume'')
   \<and> fst (run_operation example_platform (Attach_volume ''vol-1'' ''i-0a1b2c3d'') (init 1))
     \<noteq> Inl (NameError ''attached_volume'')"
  by (simp add: run_operation_fails)

text \<open>
  C3, amended. For every input and every starting state, none of \<open>create_volume\<close>,
  \<open>list_volumes\<close> and \<open>attach_volume\<close> reaches a backend call or returns a result:
  the attempt ends in the compile error of the module and leaves the instance as it
  was. Each of the three bodies does read a name that nothing binds: \<open>device_name\<close>
  and \<open>requested_volume\<close> in \<open>create_volume\<close>, \<open>cio_volume\<close> in \<open>list_volumes\<close>,
  \<open>attached_volume\<close> in \<open>attach_volume\<close>.
\<close>

theorem create_list_attach_never_return:
  "run_operation p (Create_volume d s) self = (Inl SyntaxError, self)
   \<and> run_operation p List_volumes self = (Inl SyntaxError, self)
   \<and> run_operation p (Attach_volume b a) self = (Inl SyntaxError, self)
   \<and> unbound_reads ''create_volume'' = [''device_name'', ''requested_volume'']
   \<and> unbound_reads ''list_volumes'' = [''cio_volume'']
   \<and> unbound_reads ''attach_volume'' = [''attached_volume'']"
  by (simp add: run_operation_fails unbound_reads_create_volume unbound_reads_list_volumes
      unbound_reads_attach_volume)

text \<open>
  C5 says that \<open>create_volume\<close> builds the tag dictionary. The call for the dataset
  with id 10 and one GiB, on an instance of cluster 1, ends in the compile error, and
  its frame binds no \<open>metadata\<close>: the dictionary of lines 199-203 is never built.
  (The frame of a call that reaches those lines does bind it, as
  \<open>create_volume_binds_metadata_when_reached\<close> shows.)
\<close>

theorem create_volume_builds_no_metadata:
  "call_create_volume example_platform 10 1073741824 (init 1) = (Inl SyntaxError, Map.empty)
   \<and> snd (call_create_volume example_platform 10 1073741824 (init 1)) ''metadata'' = None"
  by (simp add: call_create_volume_fails)


text \<open>
  C7. The lock created in \<open>__init__\<close> is never acquired or released: every operation, on
  every input, leaves the lock field as it was, and its outcome is the same whatever
  the state of the lock. This holds of an attempt to run the operation and of its body
  in a loaded module.
\<close>

theorem lock_is_never_used:
  "lock (snd (run_operation p op self)) = lock self
   \<and> fst (run_operation p op (self\<lparr>lock := l\<rparr>)) = fst (run_operation p op self)
   \<and> lock (snd (run_body p m op self)) = lock self
   \<and> fst (run_body p m op (self\<lparr>lock := l\<rparr>)) = fst (run_body p m op self)"
  using run_body_ignores_self [of p m op "self\<lparr>lock := l\<rparr>" self]
  by (simp add: run_operation_fails run_body_keeps_self)

text \<open>
  C8, as stated, fails: \<open>compute_instance_id\<close> is a public method of the class and is
  none of the seven the claim names, and the public methods are eight, not six.
\<close>

theorem public_operations_counterexample:
  "''compute_instance_id'' \<in> set public_operations
   \<and> ''compute_instance_id'' \<notin> set [''allocation_unit'', ''create_volume'', ''list_volumes'',
        ''attach_volume'', ''detach_volume'', ''destroy_volume'', ''get_device_path'']
   \<and> length public_operations = 8"
  by (simp add: public_operations_def class_body_names_def)

text \<open>
  C8, amended. The class exposes exactly eight public operations: the seven the claim
  names (\<open>allocation_unit\<close>, \<open>create_volume\<close>, \<open>list_volumes\<close>, \<open>attach_volume\<close>,
  \<open>detach_volume\<close>, \<open>destroy_volume\<close>, \<open>get_device_path\<close>) and \<open>compute_instance_id\<close>;
  they are the operations \<open>run_operation\<close> runs.
\<close>

theorem public_operations_are_eight:
  "public_operations =
     [''allocation_unit'', ''compute_instance_id'', ''create_volume'', ''list_volumes'',
      ''attach_volume'', ''detach_volume'', ''destroy_volume'', ''get_device_path'']
   \<and> range operation_name = set public_operations"
proof -
  have l: "public_operations =
     [''allocation_unit'', ''compute_instance_id'', ''create_volume'', ''list_volumes'',
      ''attach_volume'', ''detach_volume'', ''destroy_volume'', ''get_device_path'']"
    by (simp add: public_operations_def class_body_names_def)
  have named: "operation_name op \<in> set public_operations" for op
    unfolding l by (cases op) simp_all
  have called: "n \<in> range operation_name" if "n \<in> set public_operations" for n
  proof -
    from that have "n = operation_name Allocation_unit
      \<or> n = operation_name Compute_instance_id
      \<or> n = operation_name (Create_volume 0 0)
      \<or> n = operation_name List_volumes
      \<or> n = operation_name (Attach_volume [] [])
      \<or> n = operation_name (Detach_volume [])
      \<or> n = operation_name (Destroy_volume [])
      \<or> n = operation_name (Get_device_path [])"
      unfolding l by simp
    then show ?thesis by (elim disjE) (simp_all only: rangeI)
  qed
  have "range operation_name \<subseteq> set public_operations"
    using named by (rule image_subsetI)
  moreover have "set public_operations \<subseteq> range operation_name"
    using called by (rule subsetI)
  ultimately have "range operation_name = set public_operations"
    by (rule equalityI)
  with l show ?thesis by (rule conjI)
qed

text \<open>
  C10 says that \<open>allocation_unit\<close> returns 8589934592. The body denotes that number
  (\<open>allocation_unit_returns\<close>), but the attempt to call it on an instance of cluster 1
  ends in the compile error and returns nothing.
\<close>

theorem allocation_unit_cannot_be_called:
  "run_operation example_platform Allocation_unit (init 1) = (Inl SyntaxError, init 1)
   \<and> fst (run_operation example_platform Allocation_unit (init 1))
       \<noteq> Inr (IntValue 8589934592)"
  by (simp add: run_operation_fails)

end
